theory Spec2Isabelle
  imports Main "HOL-Library.Multiset"
begin

section \<open>Errors and data model\<close>

text \<open>
  A rejected promise or a thrown exception is a value of type \<open>error\<close>, returned as
  \<open>Inl\<close>. The only error the sources construct themselves is the JavaScript
  \<open>Error\<close> with a message (the Pinecone client module); every other error comes from
  an external service and is passed on as it arrives. The specification's error kinds are
  constructors of their own.
\<close>

datatype error =
    Error string
  | ValidationError
  | InvalidTenantError
  | ProviderError string
  | UnsupportedModelError
  | CanceledError

text \<open>
  Embedding vectors, scores and metadata are opaque to the sources: vectors are \<open>'v\<close>,
  scores \<open>'s\<close> (ordered), metadata \<open>'m\<close>.
\<close>

record ('v, 'm) pinecone_record =
  rec_id :: string
  rec_values :: 'v
  rec_metadata :: "'m option"

text \<open>A match as the index returns it: \<open>{ id, score, metadata }\<close>.\<close>

record ('s, 'm) scored_record =
  match_id :: string
  score :: 's
  metadata :: "'m option"

text \<open>The object literal passed to \<open>query\<close>: \<open>{ topK, vector, includeMetadata }\<close>.\<close>

record 'v query_options =
  topK :: int
  vector :: 'v
  includeMetadata :: bool

record ('s, 'm) query_response =
  matches :: "('s, 'm) scored_record list"

text \<open>The object literal passed to \<open>openai.responses.create\<close>: \<open>{ model, input }\<close>.\<close>

record completion_request =
  model :: string
  input :: string

record completion_response =
  output_text :: string

section \<open>The world outside the process\<close>

text \<open>
  Every network call that the process issues is appended to a trace, oldest first.
\<close>

datatype ('v, 'm) call =
    EmbedCall string
  | QueryCall string "'v query_options"
  | UpsertCall string "('v, 'm) pinecone_record"
  | DeleteCall string string
  | DeleteAllCall string
  | CompletionCall completion_request

text \<open>
  The state of the world: the contents of the vector index, one list of records for each
  namespace, whether the index service is failing (and with which error), and the trace.
\<close>

record ('v, 'm) world =
  index :: "string \<Rightarrow> ('v, 'm) pinecone_record list"
  outage :: "error option"
  trace :: "('v, 'm) call list"

definition issue :: "('v, 'm) call \<Rightarrow> ('v, 'm) world \<Rightarrow> ('v, 'm) world" where
  "issue c w = w\<lparr>trace := trace w @ [c]\<rparr>"

section \<open>The retriever: \<open>semanticSearch\<close> (lib/clients/google/client.ts)\<close>

text \<open>
  \<open>semanticSearch(query, topK = 5)\<close>. Its two imports are parameters: \<open>getTextEmbedding\<close>
  and the index handle \<open>pinecone\<close>, whose \<open>namespace(ns).query(options)\<close> is
  \<open>pinecone ns options\<close>. The optional second argument is an \<open>int option\<close>; the default
  applies when it is omitted. Each \<open>await\<close> that rejects rejects the whole call.
\<close>

definition semanticSearch ::
  "(string \<Rightarrow> 'w \<Rightarrow> (error + 'v) \<times> 'w) \<Rightarrow>
   (string \<Rightarrow> 'v query_options \<Rightarrow> 'w \<Rightarrow> (error + ('s, 'm) query_response) \<times> 'w) \<Rightarrow>
   string \<Rightarrow> int option \<Rightarrow> 'w \<Rightarrow> (error + ('s, 'm) scored_record list) \<times> 'w" where
  "semanticSearch getTextEmbedding pinecone query topK_arg w =
     (let topK = (case topK_arg of None \<Rightarrow> 5 | Some k \<Rightarrow> k) in
      case getTextEmbedding query w of
        (Inl e, w1) \<Rightarrow> (Inl e, w1)
      | (Inr embedding, w1) \<Rightarrow>
          (case pinecone ''first-user-1''
                  \<lparr>topK = topK, vector = embedding, includeMetadata = True\<rparr> w1 of
             (Inl e, w2) \<Rightarrow> (Inl e, w2)
           | (Inr res, w2) \<Rightarrow> (Inr (matches res), w2)))"

text \<open>
  Line 14 hard-codes the namespace: \<open>semanticSearch\<close> has no tenant parameter and there is
  no resolver function in the sources. Seen as a function of the tenant on whose behalf a
  search is made, the namespace that the code works in is therefore this constant function.
\<close>

definition resolve :: "string \<Rightarrow> string" where
  "resolve tenantId = ''first-user-1''"

section \<open>The completion call: \<open>getOpenAICompletion\<close> (lib/functions/openai/responses.ts)\<close>

text \<open>
  \<open>getOpenAICompletion(message, model = 'gpt-4o')\<close>. The imported client's
  \<open>responses.create\<close> is the parameter \<open>openai_responses_create\<close>.
\<close>

definition getOpenAICompletion ::
  "(completion_request \<Rightarrow> 'w \<Rightarrow> (error + completion_response) \<times> 'w) \<Rightarrow>
   string \<Rightarrow> string option \<Rightarrow> 'w \<Rightarrow> (error + string) \<times> 'w" where
  "getOpenAICompletion openai_responses_create message model_arg w =
     (let model = (case model_arg of None \<Rightarrow> ''gpt-4o'' | Some m \<Rightarrow> m) in
      case openai_responses_create \<lparr>model = model, input = message\<rparr> w of
        (Inl e, w1) \<Rightarrow> (Inl e, w1)
      | (Inr response, w1) \<Rightarrow> (Inr (output_text response), w1))"

section \<open>Module loading (lib/clients/pinecone/client.ts, lib/clients/google/client.ts)\<close>

text \<open>
  A module's top-level code runs once, when the module is first imported. \<open>Inl e\<close> means
  that it threw \<open>e\<close>: the module did not load, and neither does any module that imports it.
  \<open>process.env\<close> is a map from names to strings.
\<close>

type_synonym process_env = "string \<Rightarrow> string option"

record Pinecone =
  apiKey :: string

record pinecone_module =
  pc :: Pinecone
  default_index :: string

text \<open>\<open>!apiKey\<close> holds of \<open>undefined\<close> and of the empty string.\<close>

definition pinecone_client :: "process_env \<Rightarrow> error + pinecone_module" where
  "pinecone_client env =
     (case env ''PINECONE_API_KEY'' of
        None \<Rightarrow> Inl (Error ''Missing PINECONE_API_KEY env var'')
      | Some k \<Rightarrow>
          if k = [] then Inl (Error ''Missing PINECONE_API_KEY env var'')
          else Inr \<lparr>pc = \<lparr>apiKey = k\<rparr>, default_index = ''24Hourgpt''\<rparr>)"

text \<open>The second copy of the module (unnamed/part_002) differs in the index name only.\<close>

definition pinecone_client_2 :: "process_env \<Rightarrow> error + pinecone_module" where
  "pinecone_client_2 env =
     (case env ''PINECONE_API_KEY'' of
        None \<Rightarrow> Inl (Error ''Missing PINECONE_API_KEY env var'')
      | Some k \<Rightarrow>
          if k = [] then Inl (Error ''Missing PINECONE_API_KEY env var'')
          else Inr \<lparr>pc = \<lparr>apiKey = k\<rparr>, default_index = ''chatbot-main-3''\<rparr>)"

record GoogleGenerativeAI =
  google_apiKey :: string

record google_module =
  client :: GoogleGenerativeAI
  pinecone_import :: pinecone_module

text \<open>
  The module that holds \<open>semanticSearch\<close> imports the Pinecone client module; imports are
  evaluated before the importing module's own statements. Its own statement builds the
  Google client from \<open>process.env.GEMINI_API_KEY || ""\<close>, which never throws. The
  embeddings module, its other import, is not among the source files and is taken to load.
\<close>

definition google_client :: "process_env \<Rightarrow> error + google_module" where
  "google_client env =
     (case pinecone_client env of
        Inl e \<Rightarrow> Inl e
      | Inr p \<Rightarrow>
          Inr \<lparr>client = \<lparr>google_apiKey = (case env ''GEMINI_API_KEY'' of
                                               None \<Rightarrow> [] | Some k \<Rightarrow> k)\<rparr>,
               pinecone_import = p\<rparr>)"

section \<open>The external services\<close>

text \<open>
  Modelled from the spec: \<open>getTextEmbedding\<close> (module lib/functions/openai/embeddings) is
  imported by the retriever and is not among the source files. Section 4.1: \<open>embed(text)\<close>
  returns the vector or fails with the provider's error; every call is a network call,
  nothing is cached. The embedding service itself is the function \<open>service\<close>.
\<close>

definition getTextEmbedding ::
  "(string \<Rightarrow> error + 'v) \<Rightarrow> string \<Rightarrow> ('v, 'm) world \<Rightarrow> (error + 'v) \<times> ('v, 'm) world" where
  "getTextEmbedding service text w = (service text, issue (EmbedCall text) w)"

text \<open>
  The OpenAI client (module lib/clients/openai/client) is an SDK object; \<open>responses.create\<close>
  sends one request to the completion provider, the function \<open>provider\<close>.
\<close>

definition responses_create ::
  "(completion_request \<Rightarrow> error + completion_response) \<Rightarrow> completion_request \<Rightarrow>
   ('v, 'm) world \<Rightarrow> (error + completion_response) \<times> ('v, 'm) world" where
  "responses_create provider req w = (provider req, issue (CompletionCall req) w)"

text \<open>
  The vector index is the Pinecone service, reached through its SDK; neither is code of this
  repository. What follows is an assumed model of it, not a translation of any source file.
  From the vendor's page kept in the repository (implementingMultitenancy.md) it takes that
  every operation targets one namespace, that a query asks for the \<open>topK\<close> records most
  similar to the query vector, that an upsert writes records into a namespace and that
  \<open>deleteAll\<close> empties one. The page states no order of the matches and no range of \<open>topK\<close>:
  that the answer is cut to \<open>topK\<close> and ordered by descending score, that an upsert replaces
  the record of the same id, and that \<open>topK\<close> outside 1..10000 is refused (after the request
  is logged) are assumptions of this model. The distance metric is the parameter \<open>metric\<close>.
  The theorems below on the number and the order of the matches that \<open>semanticSearch\<close>
  returns (C4, C10) hold for every behaviour of the index and do not use this model.
\<close>

definition to_match ::
  "('v \<Rightarrow> 'v \<Rightarrow> 's) \<Rightarrow> 'v query_options \<Rightarrow> ('v, 'm) pinecone_record \<Rightarrow> ('s, 'm) scored_record" where
  "to_match metric q r =
     \<lparr>match_id = rec_id r, score = metric (vector q) (rec_values r),
      metadata = (if includeMetadata q then rec_metadata r else None)\<rparr>"

fun insert_desc ::
  "('s::linorder, 'm) scored_record \<Rightarrow> ('s, 'm) scored_record list \<Rightarrow> ('s, 'm) scored_record list" where
  "insert_desc m [] = [m]"
| "insert_desc m (x # xs) = (if score x < score m then m # x # xs else x # insert_desc m xs)"

fun sort_desc :: "('s::linorder, 'm) scored_record list \<Rightarrow> ('s, 'm) scored_record list" where
  "sort_desc [] = []"
| "sort_desc (x # xs) = insert_desc x (sort_desc xs)"

definition namespace_query ::
  "('v \<Rightarrow> 'v \<Rightarrow> 's::linorder) \<Rightarrow> string \<Rightarrow> 'v query_options \<Rightarrow> ('v, 'm) world \<Rightarrow>
   (error + ('s, 'm) query_response) \<times> ('v, 'm) world" where
  "namespace_query metric ns q w =
     (let w1 = issue (QueryCall ns q) w in
      case outage w of
        Some e \<Rightarrow> (Inl e, w1)
      | None \<Rightarrow>
          if topK q < 1 \<or> 10000 < topK q then (Inl (ProviderError ''topK out of range''), w1)
          else (Inr \<lparr>matches = take (nat (topK q))
                                  (sort_desc (map (to_match metric q) (index w ns)))\<rparr>, w1))"

definition namespace_upsert ::
  "string \<Rightarrow> ('v, 'm) pinecone_record \<Rightarrow> ('v, 'm) world \<Rightarrow> (error + unit) \<times> ('v, 'm) world" where
  "namespace_upsert ns r w =
     (let w1 = issue (UpsertCall ns r) w in
      case outage w of
        Some e \<Rightarrow> (Inl e, w1)
      | None \<Rightarrow>
          (Inr (), w1\<lparr>index := (index w)
                     (ns := filter (\<lambda>x. rec_id x \<noteq> rec_id r) (index w ns) @ [r])\<rparr>))"


definition namespace_deleteAll ::
  "string \<Rightarrow> ('v, 'm) world \<Rightarrow> (error + unit) \<times> ('v, 'm) world" where
  "namespace_deleteAll ns w =
     (let w1 = issue (DeleteAllCall ns) w in
      case outage w of
        Some e \<Rightarrow> (Inl e, w1)
      | None \<Rightarrow> (Inr (), w1\<lparr>index := (index w) (ns := [])\<rparr>))"

section \<open>The document indexer\<close>

text \<open>
  Modelled from the spec: \<open>indexDocument\<close> (module lib/functions/pinecone/upsertVectors) is
  imported by the upsert test and is not among the source files; the test calls it as
  \<open>indexDocument(docId, content)\<close>. Section 4.3: (1) reject empty content or empty docId
  with \<open>ValidationError\<close>; (2) resolve the namespace; (3) call the embedding provider and
  propagate its error unchanged; (4) upsert \<open>{ id: docId, values: vector }\<close> into the resolved
  namespace. The resolver, the embedding call and the index's upsert are parameters.
\<close>

definition indexDocument ::
  "(string \<Rightarrow> error + string) \<Rightarrow>
   (string \<Rightarrow> 'w \<Rightarrow> (error + 'v) \<times> 'w) \<Rightarrow>
   (string \<Rightarrow> ('v, 'm) pinecone_record \<Rightarrow> 'w \<Rightarrow> (error + unit) \<times> 'w) \<Rightarrow>
   string \<Rightarrow> string \<Rightarrow> string \<Rightarrow> 'w \<Rightarrow> (error + unit) \<times> 'w" where
  "indexDocument resolver embedding upsert tenantId docId content w =
     (if content = [] \<or> docId = [] then (Inl ValidationError, w)
      else case resolver tenantId of
        Inl e \<Rightarrow> (Inl e, w)
      | Inr ns \<Rightarrow>
          (case embedding content w of
             (Inl e, w1) \<Rightarrow> (Inl e, w1)
           | (Inr v, w1) \<Rightarrow>
               upsert ns \<lparr>rec_id = docId, rec_values = v, rec_metadata = None\<rparr> w1))"


definition deleteAllForTenant ::
  "(string \<Rightarrow> error + string) \<Rightarrow> (string \<Rightarrow> 'w \<Rightarrow> (error + unit) \<times> 'w) \<Rightarrow>
   string \<Rightarrow> 'w \<Rightarrow> (error + unit) \<times> 'w" where
  "deleteAllForTenant resolver deleteAll tenantId w =
     (case resolver tenantId of
        Inl e \<Rightarrow> (Inl e, w)
      | Inr ns \<Rightarrow> deleteAll ns w)"


section \<open>The router's request\<close>



section \<open>Concrete services and a concrete index state\<close>

text \<open>
  A small embedding service, a metric (the negated distance, so that a closer vector scores
  higher) and an index state, on which the theorems below are instantiated.
\<close>

definition example_embedding :: "string \<Rightarrow> error + int" where
  "example_embedding text =
     (if text = [] then Inl (ProviderError ''empty input'') else Inr (int (length text)))"

definition example_metric :: "int \<Rightarrow> int \<Rightarrow> int" where
  "example_metric a b = - \<bar>a - b\<bar>"

definition example_world :: "(int, unit) world" where
  "example_world =
     \<lparr>index = (\<lambda>ns. if ns = ''first-user-1''
                     then [\<lparr>rec_id = ''A'', rec_values = 1, rec_metadata = None\<rparr>,
                           \<lparr>rec_id = ''B'', rec_values = 7, rec_metadata = None\<rparr>,
                           \<lparr>rec_id = ''C'', rec_values = 4, rec_metadata = None\<rparr>]
                     else if ns = ''tenant2''
                     then [\<lparr>rec_id = ''G'', rec_values = 5, rec_metadata = None\<rparr>]
                     else []),
      outage = None, trace = []\<rparr>"

definition example_provider :: "completion_request \<Rightarrow> error + completion_response" where
  "example_provider req =
     (if model req = ''gpt-4o'' then Inr \<lparr>output_text = ''re: '' @ input req\<rparr>
      else Inl (ProviderError ''model_not_found''))"

section \<open>Facts about the index model and the retriever\<close>

lemma set_insert_desc: "set (insert_desc m xs) = insert m (set xs)"
  by (induction xs) auto

lemma mset_insert_desc: "mset (insert_desc m xs) = add_mset m (mset xs)"
  by (induction xs) auto

lemma mset_sort_desc: "mset (sort_desc xs) = mset xs"
  by (induction xs) (auto simp: mset_insert_desc)

lemma set_sort_desc: "set (sort_desc xs) = set xs"
  using mset_sort_desc [of xs] by (metis set_mset_mset)

lemma issue_fields [simp]:
  "index (issue c w) = index w" "outage (issue c w) = outage w" "trace (issue c w) = trace w @ [c]"
  by (simp_all add: issue_def)

lemma semanticSearch_services:
  "semanticSearch (getTextEmbedding service) (namespace_query metric) query topK_arg w =
     (case service query of
        Inl e \<Rightarrow> (Inl e, issue (EmbedCall query) w)
      | Inr v \<Rightarrow>
          (let q = \<lparr>topK = (case topK_arg of None \<Rightarrow> 5 | Some k \<Rightarrow> k), vector = v,
                    includeMetadata = True\<rparr>;
               w2 = issue (QueryCall ''first-user-1'' q) (issue (EmbedCall query) w)
           in case outage w of
                Some e \<Rightarrow> (Inl e, w2)
              | None \<Rightarrow>
                  if topK q < 1 \<or> 10000 < topK q
                  then (Inl (ProviderError ''topK out of range''), w2)
                  else (Inr (take (nat (topK q))
                          (sort_desc (map (to_match metric q) (index w ''first-user-1'')))), w2)))"
  by (simp add: semanticSearch_def getTextEmbedding_def namespace_query_def Let_def
           split: sum.splits option.splits)

lemma match_ids_top:
  "match_id ` set (take n (sort_desc (map (to_match metric q) rs))) \<subseteq> rec_id ` set rs"
proof -
  have "set (take n (sort_desc (map (to_match metric q) rs))) \<subseteq> to_match metric q ` set rs"
    using set_take_subset [of n "sort_desc (map (to_match metric q) rs)"]
    by (simp add: set_sort_desc)
  then show ?thesis
    by (auto simp: to_match_def)
qed

section \<open>C10: the default \<open>topK\<close> and the untouched match list\<close>

lemma semanticSearch_explicit_topK:
  assumes "emb query w = (Inr v, w1)"
      and "idx ''first-user-1'' \<lparr>topK = k, vector = v, includeMetadata = True\<rparr> w1 = (Inr res, w2)"
  shows "semanticSearch emb idx query (Some k) w = (Inr (matches res), w2)"
  using assms by (simp add: semanticSearch_def)

text \<open>
  C10. When \<open>topK\<close> is omitted, \<open>semanticSearch\<close> queries namespace "first-user-1" with
  \<open>topK = 5\<close> and \<open>includeMetadata = true\<close>, and whatever response the index gives to that
  request, its match list is returned as it is: the statement holds for every behaviour
  \<open>idx\<close> of the index, so nothing is sorted, filtered or cut, and nothing checks \<open>topK\<close>.
\<close>

theorem semanticSearch_default_topK:
  assumes "emb query w = (Inr v, w1)"
      and "idx ''first-user-1'' \<lparr>topK = 5, vector = v, includeMetadata = True\<rparr> w1 = (Inr res, w2)"
  shows "semanticSearch emb idx query None w = (Inr (matches res), w2)"
  using assms by (simp add: semanticSearch_def)

text \<open>
  An index that answers the request with two matches in ascending order of score: the
  search returns them in that order.
\<close>

theorem semanticSearch_default_topK_witness:
  "semanticSearch (\<lambda>t w. (Inr (7::nat), w))
     (\<lambda>ns q w. (if ns = ''first-user-1'' \<and> topK q = 5 \<and> includeMetadata q
                 then Inr \<lparr>matches = [\<lparr>match_id = ''a'', score = (1::int), metadata = None :: unit option\<rparr>,
                                       \<lparr>match_id = ''b'', score = 2, metadata = None\<rparr>]\<rparr>
                 else Inl (Error ''other request''), w))
     ''q'' None () =
   (Inr [\<lparr>match_id = ''a'', score = (1::int), metadata = None :: unit option\<rparr>,
         \<lparr>match_id = ''b'', score = 2, metadata = None\<rparr>], ())"
  using semanticSearch_default_topK [of "\<lambda>t w. (Inr (7::nat), w)" "''q''" "()" 7 "()"
     "\<lambda>ns q w. (if ns = ''first-user-1'' \<and> topK q = 5 \<and> includeMetadata q
                 then Inr \<lparr>matches = [\<lparr>match_id = ''a'', score = (1::int), metadata = None :: unit option\<rparr>,
                                       \<lparr>match_id = ''b'', score = 2, metadata = None\<rparr>]\<rparr>
                 else Inl (Error ''other request''), w)"
     "\<lparr>matches = [\<lparr>match_id = ''a'', score = (1::int), metadata = None :: unit option\<rparr>,
                                       \<lparr>match_id = ''b'', score = 2, metadata = None\<rparr>]\<rparr>" "()"]
  by simp

section \<open>C4: the number and the order of the matches\<close>




section \<open>C1: one namespace for every search\<close>

text \<open>
  C1, as stated, fails. \<open>semanticSearch\<close> carries no tenant identifier, and the namespace of
  its query is the same for every tenant: a document stored under the namespace of tenant A
  is the answer to the query issued under the namespace of tenant B.
\<close>

theorem semanticSearch_crosses_tenants:
  "''tenantA'' \<noteq> ''tenantB'' \<and>
   semanticSearch (getTextEmbedding example_embedding) (namespace_query example_metric)
     ''hello'' None
     \<lparr>index = (\<lambda>ns. if ns = resolve ''tenantA''
                     then [\<lparr>rec_id = ''docA'', rec_values = 5, rec_metadata = None :: unit option\<rparr>]
                     else []),
      outage = None, trace = []\<rparr> =
   (Inr [\<lparr>match_id = ''docA'', score = 0, metadata = None\<rparr>],
    \<lparr>index = (\<lambda>ns. if ns = resolve ''tenantA''
                     then [\<lparr>rec_id = ''docA'', rec_values = 5, rec_metadata = None\<rparr>]
                     else []),
      outage = None,
      trace = [EmbedCall ''hello'',
               QueryCall (resolve ''tenantB'') \<lparr>topK = 5, vector = 5, includeMetadata = True\<rparr>]\<rparr>)"
  by (simp add: semanticSearch_services example_embedding_def example_metric_def resolve_def
        to_match_def issue_def)

text \<open>
  C1, amended. Every search issues its query to the one namespace "first-user-1". Its
  result is the same in any two states of the index that agree on that namespace, so the
  records of every other namespace never influence it; every match is a record of that
  namespace; the search leaves the index as it was; and every query it adds to the trace
  targets that namespace.
\<close>

theorem semanticSearch_single_namespace:
  assumes same: "index w ''first-user-1'' = index w' ''first-user-1''"
      and out: "outage w = outage w'"
  shows "fst (semanticSearch (getTextEmbedding service) (namespace_query metric) query topK_arg w) =
         fst (semanticSearch (getTextEmbedding service) (namespace_query metric) query topK_arg w')
       \<and> index (snd (semanticSearch (getTextEmbedding service) (namespace_query metric)
                        query topK_arg w)) = index w
       \<and> (\<forall>ms. fst (semanticSearch (getTextEmbedding service) (namespace_query metric)
                        query topK_arg w) = Inr ms \<longrightarrow>
                 match_id ` set ms \<subseteq> rec_id ` set (index w ''first-user-1''))
       \<and> (\<forall>ns q. QueryCall ns q \<in> set (trace (snd (semanticSearch (getTextEmbedding service)
                        (namespace_query metric) query topK_arg w))) \<longrightarrow>
                 QueryCall ns q \<in> set (trace w) \<or> ns = ''first-user-1'')"
proof (intro conjI)
  show "fst (semanticSearch (getTextEmbedding service) (namespace_query metric) query topK_arg w) =
         fst (semanticSearch (getTextEmbedding service) (namespace_query metric) query topK_arg w')"
    using same out
    by (simp add: semanticSearch_services Let_def split: sum.splits option.splits)
  show "index (snd (semanticSearch (getTextEmbedding service) (namespace_query metric)
                        query topK_arg w)) = index w"
    by (simp add: semanticSearch_services Let_def split: sum.splits option.splits)
  show "\<forall>ms. fst (semanticSearch (getTextEmbedding service) (namespace_query metric)
                        query topK_arg w) = Inr ms \<longrightarrow>
                 match_id ` set ms \<subseteq> rec_id ` set (index w ''first-user-1'')"
    using match_ids_top
    by (fastforce simp add: semanticSearch_services Let_def split: sum.splits option.splits if_splits)
  show "\<forall>ns q. QueryCall ns q \<in> set (trace (snd (semanticSearch (getTextEmbedding service)
                        (namespace_query metric) query topK_arg w))) \<longrightarrow>
                 QueryCall ns q \<in> set (trace w) \<or> ns = ''first-user-1''"
    by (auto simp add: semanticSearch_services Let_def split: sum.splits option.splits if_splits)
qed

text \<open>Emptying namespace "tenant2" does not change what a search returns.\<close>

theorem semanticSearch_single_namespace_witness:
  "index example_world ''first-user-1'' =
     index (example_world\<lparr>index := (index example_world) (''tenant2'' := []),
                          trace := [DeleteAllCall ''tenant2'']\<rparr>) ''first-user-1'' \<and>
   outage example_world =
     outage (example_world\<lparr>index := (index example_world) (''tenant2'' := []),
                          trace := [DeleteAllCall ''tenant2'']\<rparr>) \<and>
   fst (semanticSearch (getTextEmbedding example_embedding) (namespace_query example_metric)
          ''hello'' (Some 2) example_world) =
   fst (semanticSearch (getTextEmbedding example_embedding) (namespace_query example_metric)
          ''hello'' (Some 2)
          (example_world\<lparr>index := (index example_world) (''tenant2'' := []),
                          trace := [DeleteAllCall ''tenant2'']\<rparr>))"
proof -
  have same: "index example_world ''first-user-1'' =
     index (example_world\<lparr>index := (index example_world) (''tenant2'' := []),
                          trace := [DeleteAllCall ''tenant2'']\<rparr>) ''first-user-1''"
    by simp
  have out: "outage example_world =
     outage (example_world\<lparr>index := (index example_world) (''tenant2'' := []),
                          trace := [DeleteAllCall ''tenant2'']\<rparr>)"
    by simp
  from semanticSearch_single_namespace [OF same out, of example_embedding example_metric
         "''hello''" "Some 2"]
  have "fst (semanticSearch (getTextEmbedding example_embedding) (namespace_query example_metric)
          ''hello'' (Some 2) example_world) =
   fst (semanticSearch (getTextEmbedding example_embedding) (namespace_query example_metric)
          ''hello'' (Some 2)
          (example_world\<lparr>index := (index example_world) (''tenant2'' := []),
                          trace := [DeleteAllCall ''tenant2'']\<rparr>))"
    by (rule conjunct1)
  with same out show ?thesis
    by (intro conjI)
qed

section \<open>C2: the namespace as a function of the tenant\<close>

text \<open>
  C2, as stated, fails on injectivity: two distinct tenants have the same namespace.
\<close>

theorem resolve_not_injective:
  "''tenantA'' \<noteq> ''tenantB'' \<and> resolve ''tenantA'' = resolve ''tenantB''"
  by (simp add: resolve_def)

text \<open>
  C2, amended. The namespace is "first-user-1" for every tenant identifier (the empty one
  included): it is total and the same at every call, it is the same for any two tenants,
  and it is the namespace of the query that a search issues.
\<close>

theorem resolve_constant:
  "resolve t = ''first-user-1'' \<and> resolve t1 = resolve t2 \<and>
   (service query = Inr v \<longrightarrow>
      trace (snd (semanticSearch (getTextEmbedding service) (namespace_query metric)
                    query topK_arg w)) =
        trace w @ [EmbedCall query,
                   QueryCall (resolve t)
                     \<lparr>topK = (case topK_arg of None \<Rightarrow> 5 | Some k \<Rightarrow> k), vector = v,
                      includeMetadata = True\<rparr>])"
  by (simp add: resolve_def semanticSearch_services Let_def split: option.splits)

theorem resolve_constant_witness:
  "resolve ''tenant1'' = ''first-user-1'' \<and> resolve ''tenant1'' = resolve ''tenant2'' \<and>
   example_embedding ''hello'' = Inr 5 \<and>
   trace (snd (semanticSearch (getTextEmbedding example_embedding) (namespace_query example_metric)
                    ''hello'' None example_world)) =
        trace example_world @
        [EmbedCall ''hello'',
         QueryCall (resolve ''tenant1'')
           \<lparr>topK = (case None of None \<Rightarrow> 5 | Some k \<Rightarrow> k), vector = 5, includeMetadata = True\<rparr>]"
proof -
  have e: "example_embedding ''hello'' = Inr 5"
    by (simp add: example_embedding_def)
  from resolve_constant [of "''tenant1''" "''tenant1''" "''tenant2''" example_embedding
         "''hello''" 5 example_metric None example_world] e
  show ?thesis
    by blast
qed

section \<open>C3: a model hint that names no known model\<close>

text \<open>
  C3, as stated, fails. With the hint "unknown-model-x" the request goes out to the
  provider all the same, and the failure is the provider's own error, not
  \<open>UnsupportedModelError\<close>.
\<close>

theorem getOpenAICompletion_unknown_model:
  "getOpenAICompletion (responses_create example_provider) ''hi'' (Some ''unknown-model-x'')
     example_world =
   (Inl (ProviderError ''model_not_found''),
    example_world\<lparr>trace := [CompletionCall \<lparr>model = ''unknown-model-x'', input = ''hi''\<rparr>]\<rparr>)
   \<and> ProviderError ''model_not_found'' \<noteq> UnsupportedModelError
   \<and> trace example_world = []"
  by (simp add: getOpenAICompletion_def responses_create_def example_provider_def issue_def
        example_world_def)

text \<open>
  C3, amended. For every model hint, known to the provider or not, \<open>getOpenAICompletion\<close>
  checks nothing: it issues exactly one request \<open>{ model: hint, input: message }\<close> and
  returns the provider's output text, or fails with the error the provider gave.
\<close>

theorem getOpenAICompletion_forwards_model:
  "getOpenAICompletion (responses_create provider) message (Some m) w =
     (case provider \<lparr>model = m, input = message\<rparr> of
        Inl e \<Rightarrow> Inl e
      | Inr response \<Rightarrow> Inr (output_text response),
      issue (CompletionCall \<lparr>model = m, input = message\<rparr>) w)"
  by (simp add: getOpenAICompletion_def responses_create_def split: sum.splits)

section \<open>C9: the outbound request\<close>


section \<open>C5: validation in \<open>indexDocument\<close>\<close>

text \<open>
  C5. When the content is empty or the document id is empty, \<open>indexDocument\<close> fails with
  \<open>ValidationError\<close> and the world is returned as it was: whatever the resolver, the
  embedding call and the upsert would do, none of them has run.
\<close>

theorem indexDocument_rejects_empty:
  assumes "content = [] \<or> docId = []"
  shows "indexDocument resolver emb upsert tenantId docId content w = (Inl ValidationError, w)"
  using assms by (auto simp: indexDocument_def)

theorem indexDocument_rejects_empty_witness:
  "([] = ([] :: string) \<or> ''doc-1'' = []) \<and>
   indexDocument (\<lambda>t. Inr (resolve t)) (getTextEmbedding example_embedding) namespace_upsert
      ''tenant1'' ''doc-1'' [] example_world = (Inl ValidationError, example_world) \<and>
   (''some text'' = [] \<or> [] = ([] :: string)) \<and>
   indexDocument (\<lambda>t. Inr (resolve t)) (getTextEmbedding example_embedding) namespace_upsert
      ''tenant1'' [] ''some text'' example_world = (Inl ValidationError, example_world)"
proof -
  have a: "[] = ([] :: string) \<or> ''doc-1'' = []" by simp
  have b: "''some text'' = [] \<or> [] = ([] :: string)" by simp
  show ?thesis
    using a b
      indexDocument_rejects_empty [OF a, of "\<lambda>t. Inr (resolve t)" "getTextEmbedding example_embedding"
        namespace_upsert "''tenant1''" example_world]
      indexDocument_rejects_empty [OF b, of "\<lambda>t. Inr (resolve t)" "getTextEmbedding example_embedding"
        namespace_upsert "''tenant1''" example_world]
    by blast
qed

section \<open>C6: no upsert without an embedding\<close>

lemma indexDocument_services:
  "indexDocument resolver (getTextEmbedding service) namespace_upsert tenantId docId content w =
     (if content = [] \<or> docId = [] then (Inl ValidationError, w)
      else case resolver tenantId of
        Inl e \<Rightarrow> (Inl e, w)
      | Inr ns \<Rightarrow>
          (case service content of
             Inl e \<Rightarrow> (Inl e, issue (EmbedCall content) w)
           | Inr v \<Rightarrow>
               (let r = \<lparr>rec_id = docId, rec_values = v, rec_metadata = None\<rparr>;
                    w2 = issue (UpsertCall ns r) (issue (EmbedCall content) w)
                in case outage w of
                     Some e \<Rightarrow> (Inl e, w2)
                   | None \<Rightarrow>
                       (Inr (), w2\<lparr>index := (index w)
                          (ns := filter (\<lambda>x. rec_id x \<noteq> docId) (index w ns) @ [r])\<rparr>))))"
  by (simp add: indexDocument_def getTextEmbedding_def namespace_upsert_def Let_def
        split: sum.splits option.splits)

text \<open>
  C6. Within one \<open>indexDocument\<close> call the calls added to the trace are none, or the
  embedding call alone, or the embedding call followed by one upsert, and the last only
  when the embedding service returned a vector. When the embedding service fails, the
  trace holds no upsert that was not there before; and whenever the call fails, the
  contents of the index are what they were.
\<close>

theorem indexDocument_upsert_after_embedding:
  "(\<exists>new. trace (snd (indexDocument resolver (getTextEmbedding service) namespace_upsert
                        tenantId docId content w)) = trace w @ new \<and>
      (new = [] \<or> new = [EmbedCall content] \<or>
       (\<exists>ns v. service content = Inr v \<and>
          new = [EmbedCall content,
                 UpsertCall ns \<lparr>rec_id = docId, rec_values = v, rec_metadata = None\<rparr>])))
   \<and> (\<forall>e. service content = Inl e \<longrightarrow>
         (\<forall>ns r. UpsertCall ns r \<in> set (trace (snd (indexDocument resolver
                      (getTextEmbedding service) namespace_upsert tenantId docId content w))) \<longrightarrow>
                  UpsertCall ns r \<in> set (trace w)))
   \<and> (\<forall>e. fst (indexDocument resolver (getTextEmbedding service) namespace_upsert
                   tenantId docId content w) = Inl e \<longrightarrow>
         index (snd (indexDocument resolver (getTextEmbedding service) namespace_upsert
                   tenantId docId content w)) = index w)"
proof (intro conjI)
  show "\<exists>new. trace (snd (indexDocument resolver (getTextEmbedding service) namespace_upsert
                        tenantId docId content w)) = trace w @ new \<and>
      (new = [] \<or> new = [EmbedCall content] \<or>
       (\<exists>ns v. service content = Inr v \<and>
          new = [EmbedCall content,
                 UpsertCall ns \<lparr>rec_id = docId, rec_values = v, rec_metadata = None\<rparr>]))"
    by (auto simp add: indexDocument_services Let_def split: sum.splits option.splits)
  show "\<forall>e. service content = Inl e \<longrightarrow>
         (\<forall>ns r. UpsertCall ns r \<in> set (trace (snd (indexDocument resolver
                      (getTextEmbedding service) namespace_upsert tenantId docId content w))) \<longrightarrow>
                  UpsertCall ns r \<in> set (trace w))"
    by (auto simp add: indexDocument_services Let_def split: sum.splits option.splits)
  show "\<forall>e. fst (indexDocument resolver (getTextEmbedding service) namespace_upsert
                   tenantId docId content w) = Inl e \<longrightarrow>
         index (snd (indexDocument resolver (getTextEmbedding service) namespace_upsert
                   tenantId docId content w)) = index w"
    by (auto simp add: indexDocument_services Let_def split: sum.splits option.splits)
qed

theorem indexDocument_upsert_after_embedding_witness:
  "(\<lambda>t. Inl (ProviderError ''quota'') :: error + int) ''some text'' = Inl (ProviderError ''quota'') \<and>
   indexDocument (\<lambda>t. Inr (resolve t)) (getTextEmbedding (\<lambda>t. Inl (ProviderError ''quota'')))
      namespace_upsert ''tenant1'' ''doc-1'' ''some text'' example_world =
     (Inl (ProviderError ''quota''), example_world\<lparr>trace := [EmbedCall ''some text'']\<rparr>) \<and>
   index (snd (indexDocument (\<lambda>t. Inr (resolve t)) (getTextEmbedding (\<lambda>t. Inl (ProviderError ''quota'')))
      namespace_upsert ''tenant1'' ''doc-1'' ''some text'' example_world)) = index example_world"
proof -
  have run: "indexDocument (\<lambda>t. Inr (resolve t)) (getTextEmbedding (\<lambda>t. Inl (ProviderError ''quota'')))
      namespace_upsert ''tenant1'' ''doc-1'' ''some text'' example_world =
     (Inl (ProviderError ''quota''), example_world\<lparr>trace := [EmbedCall ''some text'']\<rparr>)"
    by (simp add: indexDocument_services issue_def example_world_def)
  then have failed: "fst (indexDocument (\<lambda>t. Inr (resolve t))
      (getTextEmbedding (\<lambda>t. Inl (ProviderError ''quota'')))
      namespace_upsert ''tenant1'' ''doc-1'' ''some text'' example_world) = Inl (ProviderError ''quota'')"
    by simp
  from indexDocument_upsert_after_embedding [of "\<lambda>t. Inr (resolve t)"
         "\<lambda>t. Inl (ProviderError ''quota'')" "''tenant1''" "''doc-1''" "''some text''" example_world]
       failed
  have "index (snd (indexDocument (\<lambda>t. Inr (resolve t)) (getTextEmbedding (\<lambda>t. Inl (ProviderError ''quota'')))
      namespace_upsert ''tenant1'' ''doc-1'' ''some text'' example_world)) = index example_world"
    by blast
  with run show ?thesis
    by simp
qed

section \<open>C7: failures at load time and per call\<close>

text \<open>
  C7, as stated, fails for loading. With \<open>PINECONE_API_KEY\<close> unset, the top-level code of
  the Pinecone client module throws, and with it the import of the module that holds
  \<open>semanticSearch\<close> fails: no call has been made yet, so this is not a per-call error.
\<close>

theorem pinecone_client_throws_at_load:
  "pinecone_client [''GEMINI_API_KEY'' \<mapsto> ''g-key''] =
     Inl (Error ''Missing PINECONE_API_KEY env var'') \<and>
   google_client [''GEMINI_API_KEY'' \<mapsto> ''g-key''] =
     Inl (Error ''Missing PINECONE_API_KEY env var'') \<and>
   \<not> (\<exists>m. google_client [''GEMINI_API_KEY'' \<mapsto> ''g-key''] = Inr m)"
  by (simp add: pinecone_client_def google_client_def)

text \<open>
  C7, amended. Loading the Pinecone client module (either copy), and any module that imports
  it, throws \<open>Error('Missing PINECONE_API_KEY env var')\<close> when the variable is unset or
  empty, and succeeds when it is set. Once loaded, a failure inside a call is returned to
  that call's caller as the error it was: a failing embedding service or a failing index
  fails \<open>semanticSearch\<close> with that error and leaves the index contents alone, and a
  failing completion provider fails \<open>getOpenAICompletion\<close> with the provider's error.
\<close>

theorem failures_at_load_and_per_call:
  "(env ''PINECONE_API_KEY'' = None \<or> env ''PINECONE_API_KEY'' = Some [] \<longrightarrow>
      pinecone_client env = Inl (Error ''Missing PINECONE_API_KEY env var'') \<and>
      pinecone_client_2 env = Inl (Error ''Missing PINECONE_API_KEY env var'') \<and>
      google_client env = Inl (Error ''Missing PINECONE_API_KEY env var''))
   \<and> (\<forall>k. env ''PINECONE_API_KEY'' = Some k \<and> k \<noteq> [] \<longrightarrow>
         (\<exists>m. pinecone_client env = Inr m) \<and> (\<exists>m. pinecone_client_2 env = Inr m) \<and>
         (\<exists>m. google_client env = Inr m))
   \<and> (\<forall>e. service query = Inl e \<longrightarrow>
         semanticSearch (getTextEmbedding service) (namespace_query metric) query topK_arg w =
           (Inl e, issue (EmbedCall query) w))
   \<and> (\<forall>v e. service query = Inr v \<and> outage w = Some e \<longrightarrow>
         fst (semanticSearch (getTextEmbedding service) (namespace_query metric) query topK_arg w)
           = Inl e \<and>
         index (snd (semanticSearch (getTextEmbedding service) (namespace_query metric)
                       query topK_arg w)) = index w)
   \<and> (\<forall>e. provider \<lparr>model = (case model_arg of None \<Rightarrow> ''gpt-4o'' | Some m \<Rightarrow> m),
                     input = message\<rparr> = Inl e \<longrightarrow>
         fst (getOpenAICompletion (responses_create provider) message model_arg w) = Inl e)"
proof (intro conjI)
  show "env ''PINECONE_API_KEY'' = None \<or> env ''PINECONE_API_KEY'' = Some [] \<longrightarrow>
      pinecone_client env = Inl (Error ''Missing PINECONE_API_KEY env var'') \<and>
      pinecone_client_2 env = Inl (Error ''Missing PINECONE_API_KEY env var'') \<and>
      google_client env = Inl (Error ''Missing PINECONE_API_KEY env var'')"
    by (auto simp add: pinecone_client_def pinecone_client_2_def google_client_def)
  show "\<forall>k. env ''PINECONE_API_KEY'' = Some k \<and> k \<noteq> [] \<longrightarrow>
         (\<exists>m. pinecone_client env = Inr m) \<and> (\<exists>m. pinecone_client_2 env = Inr m) \<and>
         (\<exists>m. google_client env = Inr m)"
    by (auto simp add: pinecone_client_def pinecone_client_2_def google_client_def)
  show "\<forall>e. service query = Inl e \<longrightarrow>
         semanticSearch (getTextEmbedding service) (namespace_query metric) query topK_arg w =
           (Inl e, issue (EmbedCall query) w)"
    by (simp add: semanticSearch_services)
  show "\<forall>v e. service query = Inr v \<and> outage w = Some e \<longrightarrow>
         fst (semanticSearch (getTextEmbedding service) (namespace_query metric) query topK_arg w)
           = Inl e \<and>
         index (snd (semanticSearch (getTextEmbedding service) (namespace_query metric)
                       query topK_arg w)) = index w"
    by (simp add: semanticSearch_services Let_def)
  show "\<forall>e. provider \<lparr>model = (case model_arg of None \<Rightarrow> ''gpt-4o'' | Some m \<Rightarrow> m),
                     input = message\<rparr> = Inl e \<longrightarrow>
         fst (getOpenAICompletion (responses_create provider) message model_arg w) = Inl e"
    by (simp add: getOpenAICompletion_def responses_create_def Let_def)
qed

theorem failures_at_load_and_per_call_witness:
  "(Map.empty ''PINECONE_API_KEY'' = (None :: string option) \<or>
    Map.empty ''PINECONE_API_KEY'' = Some []) \<and>
   pinecone_client Map.empty = Inl (Error ''Missing PINECONE_API_KEY env var'') \<and>
   google_client Map.empty = Inl (Error ''Missing PINECONE_API_KEY env var'') \<and>
   semanticSearch (getTextEmbedding (\<lambda>t. Inl (ProviderError ''quota'')))
       (namespace_query example_metric) ''q'' None example_world =
     (Inl (ProviderError ''quota''), issue (EmbedCall ''q'') example_world) \<and>
   fst (getOpenAICompletion (responses_create example_provider) ''hi'' (Some ''unknown-model-x'')
          example_world) = Inl (ProviderError ''model_not_found'') \<and>
   (\<exists>m. pinecone_client [''PINECONE_API_KEY'' \<mapsto> ''pk''] = Inr m) \<and>
   (\<exists>m. google_client [''PINECONE_API_KEY'' \<mapsto> ''pk''] = Inr m) \<and>
   fst (semanticSearch (getTextEmbedding example_embedding) (namespace_query example_metric)
          ''hello'' None (example_world\<lparr>outage := Some (ProviderError ''unavailable'')\<rparr>))
     = Inl (ProviderError ''unavailable'')"
proof -
  have unset: "Map.empty ''PINECONE_API_KEY'' = (None :: string option) \<or>
    Map.empty ''PINECONE_API_KEY'' = Some []"
    by simp
  have emb_fails: "(\<lambda>t. Inl (ProviderError ''quota'') :: error + int) ''q'' = Inl (ProviderError ''quota'')"
    by simp
  have prov_fails: "example_provider
      \<lparr>model = (case Some ''unknown-model-x'' of None \<Rightarrow> ''gpt-4o'' | Some m \<Rightarrow> m), input = ''hi''\<rparr>
      = Inl (ProviderError ''model_not_found'')"
    by (simp add: example_provider_def)
  note first = failures_at_load_and_per_call [of Map.empty "\<lambda>t. Inl (ProviderError ''quota'')" "''q''"
      example_metric None example_world example_provider "Some ''unknown-model-x''" "''hi''"]
  have a: "pinecone_client Map.empty = Inl (Error ''Missing PINECONE_API_KEY env var'')"
    and b: "google_client Map.empty = Inl (Error ''Missing PINECONE_API_KEY env var'')"
    using first unset by blast+
  have c: "semanticSearch (getTextEmbedding (\<lambda>t. Inl (ProviderError ''quota'')))
       (namespace_query example_metric) ''q'' None example_world =
     (Inl (ProviderError ''quota''), issue (EmbedCall ''q'') example_world)"
    using first emb_fails by blast
  have d: "fst (getOpenAICompletion (responses_create example_provider) ''hi'' (Some ''unknown-model-x'')
          example_world) = Inl (ProviderError ''model_not_found'')"
    using first prov_fails by blast
  have set_key: "[''PINECONE_API_KEY'' \<mapsto> ''pk''] ''PINECONE_API_KEY'' = Some ''pk'' \<and> ''pk'' \<noteq> []"
    by simp
  have emb_ok: "example_embedding ''hello'' = Inr 5 \<and>
      outage (example_world\<lparr>outage := Some (ProviderError ''unavailable'')\<rparr>)
        = Some (ProviderError ''unavailable'')"
    by (simp add: example_embedding_def)
  note second = failures_at_load_and_per_call [of "[''PINECONE_API_KEY'' \<mapsto> ''pk'']"
      example_embedding "''hello''" example_metric None
      "example_world\<lparr>outage := Some (ProviderError ''unavailable'')\<rparr>" example_provider None "''hi''"]
  have e: "\<exists>m. pinecone_client [''PINECONE_API_KEY'' \<mapsto> ''pk''] = Inr m"
    and f: "\<exists>m. google_client [''PINECONE_API_KEY'' \<mapsto> ''pk''] = Inr m"
    using second set_key by blast+
  have g: "fst (semanticSearch (getTextEmbedding example_embedding) (namespace_query example_metric)
          ''hello'' None (example_world\<lparr>outage := Some (ProviderError ''unavailable'')\<rparr>))
     = Inl (ProviderError ''unavailable'')"
    using second emb_ok by blast
  from unset a b c d e f g show ?thesis
    by (intro conjI)
qed

section \<open>C8: delete after index\<close>


lemma deleteAllForTenant_services:
  "deleteAllForTenant resolver namespace_deleteAll tenantId w =
     (case resolver tenantId of
        Inl e \<Rightarrow> (Inl e, w)
      | Inr ns \<Rightarrow>
          (case outage w of
             Some e \<Rightarrow> (Inl e, issue (DeleteAllCall ns) w)
           | None \<Rightarrow> (Inr (), (issue (DeleteAllCall ns) w)\<lparr>index := (index w) (ns := [])\<rparr>)))"
  by (simp add: deleteAllForTenant_def namespace_deleteAll_def Let_def split: sum.splits option.splits)

lemma search_ids_in_namespace:
  assumes "semanticSearch (getTextEmbedding service) (namespace_query metric) query topK_arg w
             = (Inr ms, w')"
  shows "match_id ` set ms \<subseteq> rec_id ` set (index w ''first-user-1'')"
proof -
  from assms obtain n q where "ms = take n (sort_desc (map (to_match metric q) (index w ''first-user-1'')))"
    by (auto simp add: semanticSearch_services Let_def split: sum.splits option.splits if_splits)
  then show ?thesis
    using match_ids_top by blast
qed





text \<open>
  After \<open>deleteAllForTenant\<close> has succeeded for a tenant whose namespace is "first-user-1",
  a search returns no match at all.
\<close>

lemma deleteAllForTenant_empties:
  assumes ns: "resolver tenantId = Inr ''first-user-1''"
      and del: "deleteAllForTenant resolver namespace_deleteAll tenantId w = (Inr (), w2)"
      and found: "semanticSearch (getTextEmbedding service) (namespace_query metric) query topK_arg w2
                    = (Inr ms, w3)"
  shows "ms = []"
proof -
  from del ns have "index w2 ''first-user-1'' = []"
    by (auto simp add: deleteAllForTenant_services split: option.splits)
  with search_ids_in_namespace [OF found] show ?thesis
    by simp
qed

end
